theory Spec2Isabelle
  imports Main "HOL-Library.AList"
begin

section \<open>Python values\<close>

text \<open>
  A Python \<^verbatim>\<open>str\<close> is a sequence of Unicode code points, so slicing, stripping and
  comparison work on code points. \<open>S\<close> turns an ASCII literal into such a string; the Korean
  literals of the source are given by their code points.
\<close>

type_synonym pystr = "nat list"

definition S :: "string \<Rightarrow> pystr" where
  "S s = map of_char s"

text \<open>
  The values that travel between the GitHub client, the handlers and the templates:
  decoded JSON, plus \<^verbatim>\<open>markupsafe.Markup\<close> strings. A \<^verbatim>\<open>dict\<close> keeps insertion order,
  so it is an association list; its keys are strings.
\<close>

datatype pyval =
    PNone
  | PBool bool
  | PInt int
  | PStr pystr
  | PMarkup pystr
  | PList "pyval list"
  | PDict "(pystr \<times> pyval) list"

text \<open>
  Exceptions of the \<^verbatim>\<open>Exception\<close> hierarchy. \<open>GitHubAPIError m\<close> carries \<^verbatim>\<open>str(e)\<close>;
  \<open>Exception c m\<close> is any other exception, of class \<open>c\<close> with \<^verbatim>\<open>str(e) = m\<close>.
\<close>

datatype exn =
    GitHubAPIError pystr
  | Exception pystr pystr

fun str_exn :: "exn \<Rightarrow> pystr" where
  "str_exn (GitHubAPIError m) = m"
| "str_exn (Exception c m) = m"

fun type_name :: "pyval \<Rightarrow> pystr" where
  "type_name PNone = S ''NoneType''"
| "type_name (PBool b) = S ''bool''"
| "type_name (PInt i) = S ''int''"
| "type_name (PStr s) = S ''str''"
| "type_name (PMarkup s) = S ''Markup''"
| "type_name (PList xs) = S ''list''"
| "type_name (PDict d) = S ''dict''"

text \<open>Truth value of an object, as \<^verbatim>\<open>if x:\<close> and \<^verbatim>\<open>not x\<close> test it.\<close>

fun truthy :: "pyval \<Rightarrow> bool" where
  "truthy PNone = False"
| "truthy (PBool b) = b"
| "truthy (PInt i) = (i \<noteq> 0)"
| "truthy (PStr s) = (s \<noteq> [])"
| "truthy (PMarkup s) = (s \<noteq> [])"
| "truthy (PList xs) = (xs \<noteq> [])"
| "truthy (PDict d) = (d \<noteq> [])"

text \<open>
  \<^verbatim>\<open>obj[key]\<close> with a string key: a lookup in a dict, \<^verbatim>\<open>KeyError\<close> when the key is
  missing, \<^verbatim>\<open>TypeError\<close> on every other kind of value. The message texts are CPython's
  (\<^verbatim>\<open>str(KeyError(k))\<close> is the key between quotes for a key without quotes or escapes).
\<close>

fun getitem :: "pyval \<Rightarrow> pystr \<Rightarrow> exn + pyval" where
  "getitem (PDict d) k =
     (case map_of d k of
        Some v \<Rightarrow> Inr v
      | None \<Rightarrow> Inl (Exception (S ''KeyError'') (S [CHR 0x27] @ k @ S [CHR 0x27])))"
| "getitem (PStr s) k =
     Inl (Exception (S ''TypeError'')
       (S ''string indices must be integers, not '' @ S [CHR 0x27] @ S ''str'' @ S [CHR 0x27]))"
| "getitem (PMarkup s) k =
     Inl (Exception (S ''TypeError'')
       (S ''string indices must be integers, not '' @ S [CHR 0x27] @ S ''str'' @ S [CHR 0x27]))"
| "getitem (PList xs) k =
     Inl (Exception (S ''TypeError'') (S ''list indices must be integers or slices, not str''))"
| "getitem v k =
     Inl (Exception (S ''TypeError'')
       (S [CHR 0x27] @ type_name v @ S [CHR 0x27] @ S '' object is not subscriptable''))"

text \<open>
  \<^verbatim>\<open>obj.get(key, default)\<close>: only a dict has the method; \<^verbatim>\<open>obj.get(key)\<close> is
  \<open>get_method obj key PNone\<close>.
\<close>

fun get_method :: "pyval \<Rightarrow> pystr \<Rightarrow> pyval \<Rightarrow> exn + pyval" where
  "get_method (PDict d) k dflt = Inr (case map_of d k of Some v \<Rightarrow> v | None \<Rightarrow> dflt)"
| "get_method v k dflt =
     Inl (Exception (S ''AttributeError'')
       (S [CHR 0x27] @ type_name v @ S [CHR 0x27] @ S '' object has no attribute '' @
        S [CHR 0x27] @ S ''get'' @ S [CHR 0x27]))"

text \<open>
  The elements a \<^verbatim>\<open>for\<close> loop visits: the items of a list, the keys of a dict, the
  characters of a string (each a one-character \<^verbatim>\<open>str\<close>); other values are not iterable.
\<close>

fun py_iter :: "pyval \<Rightarrow> exn + pyval list" where
  "py_iter (PList xs) = Inr xs"
| "py_iter (PDict d) = Inr (map (\<lambda>kv. PStr (fst kv)) d)"
| "py_iter (PStr s) = Inr (map (\<lambda>c. PStr [c]) s)"
| "py_iter (PMarkup s) = Inr (map (\<lambda>c. PStr [c]) s)"
| "py_iter v =
     Inl (Exception (S ''TypeError'')
       (S [CHR 0x27] @ type_name v @ S [CHR 0x27] @ S '' object is not iterable''))"

text \<open>
  \<^verbatim>\<open>obj[key] = value\<close> with a string key. On a dict an existing key keeps its place
  and a new key goes to the end (\<open>AList.update\<close>); other values raise \<^verbatim>\<open>TypeError\<close>.
  The model has values, not references, so the assignment returns the changed object.
\<close>

fun setitem :: "pyval \<Rightarrow> pystr \<Rightarrow> pyval \<Rightarrow> exn + pyval" where
  "setitem (PDict d) k v = Inr (PDict (AList.update k v d))"
| "setitem (PList xs) k v =
     Inl (Exception (S ''TypeError'') (S ''list indices must be integers or slices, not str''))"
| "setitem obj k v =
     Inl (Exception (S ''TypeError'')
       (S [CHR 0x27] @ type_name obj @ S [CHR 0x27] @ S '' object does not support item assignment''))"

text \<open>
  An object reached through \<^verbatim>\<open>d.get(k)\<close> and then changed in place is still the value
  under \<open>k\<close>: \<open>store\<close> puts the changed object back where it was read.
\<close>

fun store :: "pyval \<Rightarrow> pystr \<Rightarrow> pyval \<Rightarrow> pyval" where
  "store (PDict d) k v = PDict (AList.update k v d)"
| "store obj k v = obj"

text \<open>
  \<^verbatim>\<open>Markup(obj)\<close>: a string marked as safe HTML. A string keeps its text; any other object
  gives the text \<^verbatim>\<open>str(obj)\<close>, which is the interpreter's and is taken as the parameter
  \<open>str_of\<close>.
\<close>

fun Markup :: "(pyval \<Rightarrow> pystr) \<Rightarrow> pyval \<Rightarrow> pyval" where
  "Markup str_of (PStr s) = PMarkup s"
| "Markup str_of (PMarkup s) = PMarkup s"
| "Markup str_of v = PMarkup (str_of v)"

subsection \<open>String methods\<close>

text \<open>\<^verbatim>\<open>str(n)\<close> for an integer: its decimal digits, with a minus sign when negative.\<close>

fun str_nat :: "nat \<Rightarrow> pystr" where
  "str_nat n = (if n < 10 then [48 + n] else str_nat (n div 10) @ [48 + n mod 10])"

definition str_int :: "int \<Rightarrow> pystr" where
  "str_int i = (if i < 0 then S ''-'' @ str_nat (nat (- i)) else str_nat (nat i))"


text \<open>The code points for which \<^verbatim>\<open>str.isspace\<close> holds; \<^verbatim>\<open>strip()\<close> removes them at both ends.\<close>

definition isspace :: "nat \<Rightarrow> bool" where
  "isspace c \<longleftrightarrow>
     (0x09 \<le> c \<and> c \<le> 0x0D) \<or> (0x1C \<le> c \<and> c \<le> 0x20) \<or> c = 0x85 \<or> c = 0xA0 \<or>
     c = 0x1680 \<or> (0x2000 \<le> c \<and> c \<le> 0x200A) \<or> c = 0x2028 \<or> c = 0x2029 \<or>
     c = 0x202F \<or> c = 0x205F \<or> c = 0x3000"

definition strip :: "pystr \<Rightarrow> pystr" where
  "strip s = rev (dropWhile isspace (rev (dropWhile isspace s)))"

text \<open>
  \<^verbatim>\<open>s.lower()\<close> on the letters A to Z. Outside them the model leaves a code point as it
  is; no code point outside A to Z lowercases to a letter of \<^verbatim>\<open>true\<close>, so the comparison
  \<^verbatim>\<open>s.lower() == "true"\<close> is the one Python makes.
\<close>

definition lower :: "pystr \<Rightarrow> pystr" where
  "lower s = map (\<lambda>c. if 0x41 \<le> c \<and> c \<le> 0x5A then c + 32 else c) s"

section \<open>The time filter\<close>












section \<open>The application\<close>

subsection \<open>Configuration, requests and responses\<close>

text \<open>The configuration object; the handlers read \<^verbatim>\<open>DEFAULT_PR_STATE\<close> only.\<close>

record config =
  DEFAULT_PR_STATE :: pystr

text \<open>
  Modelled from the spec: the \<^verbatim>\<open>config\<close> module is not among the sources. The spec
  describes the application as one that lets the user browse their open pull requests, so
  the default state of every configuration is \<^verbatim>\<open>"open"\<close>.
\<close>

definition get_config :: "pystr option \<Rightarrow> config" where
  "get_config config_name = \<lparr>DEFAULT_PR_STATE = S ''open''\<rparr>"

text \<open>
  The parts of a Flask request the handlers read: the query parameters and the form
  fields, both from names to string values (\<^verbatim>\<open>get\<close> returns the first value of a name).
\<close>

record request =
  args :: "pystr \<rightharpoonup> pystr"
  form :: "pystr \<rightharpoonup> pystr"

text \<open>
  A response is its body and its status code. A handler that returns a dict sends it as
  JSON; a handler that returns no status sends 200.
\<close>

datatype ctxval = Val pyval | Cfg config

datatype body =
    Html pystr "(pystr \<times> ctxval) list"
  | Json "(pystr \<times> pyval) list"

record response =
  content :: body
  status :: nat

text \<open>
  Modelled from the spec: the templates (\<^verbatim>\<open>index.html\<close>, \<^verbatim>\<open>pr_detail.html\<close>,
  \<^verbatim>\<open>error.html\<close>) are not among the sources. \<^verbatim>\<open>render_template\<close> renders HTML from
  a template name and its keyword arguments; the page is kept as that pair.
\<close>

definition render_template :: "pystr \<Rightarrow> (pystr \<times> ctxval) list \<Rightarrow> body" where
  "render_template template_name kwargs = Html template_name kwargs"

subsection \<open>The GitHub client\<close>

text \<open>
  The \<^verbatim>\<open>github\<close> package is not among the sources. Its four methods are parameters:
  each acts on the state of the outside world \<open>'w\<close> and returns a value or raises. A
  handler records every call it makes, with its arguments and its outcome, in a trace.
\<close>

datatype call =
    GetRepoInfo
  | GetMyPrList pystr
  | GetCommentsForPr pyval pyval int bool
  | AddReplyToComment pyval pyval int pystr pystr

record 'w github_api =
  get_repo_info :: "'w \<Rightarrow> (exn + pyval) \<times> 'w"
  get_my_pr_list :: "pystr \<Rightarrow> 'w \<Rightarrow> (exn + pyval) \<times> 'w"
  get_comments_for_pr :: "pyval \<Rightarrow> pyval \<Rightarrow> int \<Rightarrow> bool \<Rightarrow> 'w \<Rightarrow> (exn + pyval) \<times> 'w"
  add_reply_to_comment :: "pyval \<Rightarrow> pyval \<Rightarrow> int \<Rightarrow> pystr \<Rightarrow> pystr \<Rightarrow> 'w \<Rightarrow> (exn + pyval) \<times> 'w"

type_synonym trace = "(call \<times> (exn + pyval)) list"

type_synonym ('w, 'a) io = "'w \<times> trace \<Rightarrow> (exn + 'a) \<times> ('w \<times> trace)"

definition return_io :: "'a \<Rightarrow> ('w, 'a) io" where
  "return_io x = (\<lambda>s. (Inr x, s))"

definition bind_io :: "('w, 'a) io \<Rightarrow> ('a \<Rightarrow> ('w, 'b) io) \<Rightarrow> ('w, 'b) io" where
  "bind_io m f = (\<lambda>s. case m s of (Inl e, s') \<Rightarrow> (Inl e, s') | (Inr x, s') \<Rightarrow> f x s')"

definition lift_io :: "exn + 'a \<Rightarrow> ('w, 'a) io" where
  "lift_io r = (\<lambda>s. (r, s))"

definition invoke :: "call \<Rightarrow> ('w \<Rightarrow> (exn + pyval) \<times> 'w) \<Rightarrow> ('w, pyval) io" where
  "invoke c f = (\<lambda>(w, tr). case f w of (r, w') \<Rightarrow> (r, (w', tr @ [(c, r)])))"

text \<open>\<^verbatim>\<open>try: m  except Exception as e: return h(e)\<close>.\<close>

definition try_except :: "('w, 'a) io \<Rightarrow> (exn \<Rightarrow> 'a) \<Rightarrow> ('w, 'a) io" where
  "try_except m h =
     (\<lambda>s. case m s of (Inr x, s') \<Rightarrow> (Inr x, s') | (Inl e, s') \<Rightarrow> (Inr (h e), s'))"

text \<open>
  What the handlers close over inside \<^verbatim>\<open>create_app\<close>: the configuration and the client.
  \<open>py_str\<close> is the interpreter's \<^verbatim>\<open>str\<close> on values that are not strings.
\<close>

record 'w env =
  config :: config
  github_api :: "'w github_api"
  py_str :: "pyval \<Rightarrow> pystr"

subsection \<open>Literals of the handlers\<close>

definition github_connection_error :: pystr where
  "github_connection_error = S ''GitHub '' @ [0xC5F0, 0xACB0, 0x20, 0xC624, 0xB958]"

definition error_occurred :: pystr where
  "error_occurred = [0xC624, 0xB958, 0x20, 0xBC1C, 0xC0DD]"

definition unexpected_error_occurred :: pystr where
  "unexpected_error_occurred =
     [0xC608, 0xC0C1, 0xCE58, 0x20, 0xBABB, 0xD55C, 0x20, 0xC624, 0xB958, 0xAC00, 0x20,
      0xBC1C, 0xC0DD, 0xD588, 0xC2B5, 0xB2C8, 0xB2E4, 0x3A, 0x20]"

definition pr_not_found :: pystr where
  "pr_not_found =
     S ''PR'' @ [0xC744, 0x20, 0xCC3E, 0xC744, 0x20, 0xC218, 0x20, 0xC5C6, 0xC2B5, 0xB2C8, 0xB2E4]"

definition pr_not_found_message :: "int \<Rightarrow> pystr" where
  "pr_not_found_message pr_number =
     S ''PR #'' @ str_int pr_number @
     [0xC744, 0x28, 0xB97C, 0x29, 0x20, 0xCC3E, 0xC744, 0x20, 0xC218, 0x20, 0xC5C6, 0xC2B5,
      0xB2C8, 0xB2E4, 0x2E]"

definition comment_id_and_body_required :: pystr where
  "comment_id_and_body_required =
     S ''comment_id'' @ [0xC640, 0x20] @ S ''body'' @
     [0xAC00, 0x20, 0xD544, 0xC694, 0xD569, 0xB2C8, 0xB2E4, 0x2E]"

definition unexpected_error :: pystr where
  "unexpected_error =
     [0xC608, 0xC0C1, 0xCE58, 0x20, 0xBABB, 0xD55C, 0x20, 0xC624, 0xB958, 0x3A, 0x20]"

subsection \<open>The handlers\<close>

text \<open>
  The two \<^verbatim>\<open>except\<close> clauses of \<^verbatim>\<open>index\<close> and \<^verbatim>\<open>pr_detail\<close> (the same text in both):
  the error page with status 500.
\<close>

fun error_page :: "config \<Rightarrow> exn \<Rightarrow> response" where
  "error_page cfg (GitHubAPIError m) =
     \<lparr>content = render_template (S ''error.html'')
        [(S ''error_title'', Val (PStr github_connection_error)),
         (S ''error_message'', Val (PStr (str_exn (GitHubAPIError m)))),
         (S ''config'', Cfg cfg)],
      status = 500\<rparr>"
| "error_page cfg (Exception c m) =
     \<lparr>content = render_template (S ''error.html'')
        [(S ''error_title'', Val (PStr error_occurred)),
         (S ''error_message'', Val (PStr (unexpected_error_occurred @ str_exn (Exception c m)))),
         (S ''config'', Cfg cfg)],
      status = 500\<rparr>"

text \<open>The \<^verbatim>\<open>try\<close> block of \<^verbatim>\<open>index\<close>.\<close>

definition index_try :: "'w env \<Rightarrow> pystr \<Rightarrow> ('w, response) io" where
  "index_try app state =
     bind_io (invoke GetRepoInfo (get_repo_info (github_api app))) (\<lambda>repo.
     bind_io (lift_io (getitem repo (S ''owner''))) (\<lambda>owner.
     bind_io (lift_io (getitem repo (S ''name''))) (\<lambda>name.
     bind_io (invoke (GetMyPrList state) (get_my_pr_list (github_api app) state)) (\<lambda>prs.
     return_io
       \<lparr>content = render_template (S ''index.html'')
          [(S ''prs'', Val prs), (S ''owner'', Val owner), (S ''name'', Val name),
           (S ''state'', Val (PStr state)), (S ''config'', Cfg (config app))],
        status = 200\<rparr>))))"

definition index :: "'w env \<Rightarrow> request \<Rightarrow> ('w, response) io" where
  "index app req =
     (let state = (case args req (S ''state'') of
                     Some v \<Rightarrow> v
                   | None \<Rightarrow> DEFAULT_PR_STATE (config app))
      in try_except (index_try app state) (error_page (config app)))"

text \<open>
  A \<^verbatim>\<open>for\<close> loop whose body may raise and may change the element it visits: the
  elements after the loop, or the first exception.
\<close>

fun for_each :: "(pyval \<Rightarrow> exn + pyval) \<Rightarrow> pyval list \<Rightarrow> exn + pyval list" where
  "for_each f [] = Inr []"
| "for_each f (x # xs) =
     (case f x of
        Inl e \<Rightarrow> Inl e
      | Inr y \<Rightarrow> (case for_each f xs of Inl e \<Rightarrow> Inl e | Inr ys \<Rightarrow> Inr (y # ys)))"

text \<open>
  The loop over an object. The items of a list are the list's own objects, so the list
  holds the changed items afterwards; the keys of a dict and the characters of a string
  are strings, which nothing changes.
\<close>

definition for_in :: "(pyval \<Rightarrow> exn + pyval) \<Rightarrow> pyval \<Rightarrow> exn + pyval" where
  "for_in f obj =
     (case py_iter obj of
        Inl e \<Rightarrow> Inl e
      | Inr xs \<Rightarrow>
          (case for_each f xs of
             Inl e \<Rightarrow> Inl e
           | Inr ys \<Rightarrow> Inr (case obj of PList _ \<Rightarrow> PList ys | _ \<Rightarrow> obj)))"

text \<open>The body of the inner loop of \<^verbatim>\<open>pr_detail\<close>, on one reply.\<close>

definition wrap_reply :: "(pyval \<Rightarrow> pystr) \<Rightarrow> pyval \<Rightarrow> exn + pyval" where
  "wrap_reply str_of reply =
     (case get_method reply (S ''bodyHTML'') PNone of
        Inl e \<Rightarrow> Inl e
      | Inr body \<Rightarrow>
          if truthy body then setitem reply (S ''bodyHTML'') (Markup str_of body)
          else Inr reply)"

text \<open>The body of the outer loop of \<^verbatim>\<open>pr_detail\<close>, on one comment.\<close>

definition wrap_comment :: "(pyval \<Rightarrow> pystr) \<Rightarrow> pyval \<Rightarrow> exn + pyval" where
  "wrap_comment str_of comment =
     (case get_method comment (S ''bodyHTML'') PNone of
        Inl e \<Rightarrow> Inl e
      | Inr body \<Rightarrow>
          (case setitem comment (S ''bodyHTML_safe'')
                  (if truthy body then Markup str_of body else Markup str_of (PStr [])) of
             Inl e \<Rightarrow> Inl e
           | Inr comment1 \<Rightarrow>
               (case get_method comment1 (S ''replies'') PNone of
                  Inl e \<Rightarrow> Inl e
                | Inr replies \<Rightarrow>
                    if truthy replies then
                      (case for_in (wrap_reply str_of) replies of
                         Inl e \<Rightarrow> Inl e
                       | Inr replies' \<Rightarrow> Inr (store comment1 (S ''replies'') replies'))
                    else Inr comment1)))"

text \<open>
  Lines 129 to 140 of \<^verbatim>\<open>pr_detail\<close>: the fetched data after the wrapping, or the
  exception the wrapping raised.
\<close>

definition wrap_bodies :: "(pyval \<Rightarrow> pystr) \<Rightarrow> pyval \<Rightarrow> exn + pyval" where
  "wrap_bodies str_of pr_data =
     (case get_method pr_data (S ''comments'') (PList []) of
        Inl e \<Rightarrow> Inl e
      | Inr comments \<Rightarrow>
          if truthy comments then
            (case for_in (wrap_comment str_of) comments of
               Inl e \<Rightarrow> Inl e
             | Inr comments' \<Rightarrow> Inr (store pr_data (S ''comments'') comments'))
          else Inr pr_data)"

text \<open>The \<^verbatim>\<open>try\<close> block of \<^verbatim>\<open>pr_detail\<close>.\<close>

definition pr_detail_try :: "'w env \<Rightarrow> int \<Rightarrow> bool \<Rightarrow> bool \<Rightarrow> ('w, response) io" where
  "pr_detail_try app pr_number include_resolved compact_mode =
     bind_io (invoke GetRepoInfo (get_repo_info (github_api app))) (\<lambda>repo.
     bind_io (lift_io (getitem repo (S ''owner''))) (\<lambda>owner.
     bind_io (lift_io (getitem repo (S ''name''))) (\<lambda>name.
     bind_io (invoke (GetCommentsForPr owner name pr_number include_resolved)
                (get_comments_for_pr (github_api app) owner name pr_number include_resolved))
       (\<lambda>pr_data.
     if \<not> truthy pr_data then
       return_io
         \<lparr>content = render_template (S ''error.html'')
            [(S ''error_title'', Val (PStr pr_not_found)),
             (S ''error_message'', Val (PStr (pr_not_found_message pr_number))),
             (S ''config'', Cfg (config app))],
          status = 404\<rparr>
     else
       bind_io (lift_io (wrap_bodies (py_str app) pr_data)) (\<lambda>pr.
       return_io
         \<lparr>content = render_template (S ''pr_detail.html'')
            [(S ''pr'', Val pr), (S ''owner'', Val owner), (S ''name'', Val name),
             (S ''include_resolved'', Val (PBool include_resolved)),
             (S ''compact_mode'', Val (PBool compact_mode)),
             (S ''config'', Cfg (config app))],
          status = 200\<rparr>)))))"

text \<open>\<^verbatim>\<open>request.args.get(name, "false").lower() == "true"\<close>.\<close>

definition flag :: "request \<Rightarrow> pystr \<Rightarrow> bool" where
  "flag req name =
     (lower (case args req name of Some v \<Rightarrow> v | None \<Rightarrow> S ''false'') = S ''true'')"

definition pr_detail :: "'w env \<Rightarrow> int \<Rightarrow> request \<Rightarrow> ('w, response) io" where
  "pr_detail app pr_number req =
     (let include_resolved = flag req (S ''include_resolved'');
          compact_mode = flag req (S ''compact_mode'')
      in try_except (pr_detail_try app pr_number include_resolved compact_mode)
           (error_page (config app)))"

text \<open>The \<^verbatim>\<open>try\<close> block of \<^verbatim>\<open>add_reply\<close>.\<close>

definition add_reply_try :: "'w env \<Rightarrow> int \<Rightarrow> request \<Rightarrow> ('w, response) io" where
  "add_reply_try app pr_number req =
     bind_io (invoke GetRepoInfo (get_repo_info (github_api app))) (\<lambda>repo.
     bind_io (lift_io (getitem repo (S ''owner''))) (\<lambda>owner.
     bind_io (lift_io (getitem repo (S ''name''))) (\<lambda>name.
     (let comment_id = form req (S ''comment_id'');
          body = strip (case form req (S ''body'') of Some v \<Rightarrow> v | None \<Rightarrow> [])
      in case comment_id of
           Some cid \<Rightarrow>
             if cid = [] \<or> body = [] then
               return_io
                 \<lparr>content = Json [(S ''success'', PBool False),
                                  (S ''error'', PStr comment_id_and_body_required)],
                  status = 400\<rparr>
             else
               bind_io (invoke (AddReplyToComment owner name pr_number cid body)
                          (add_reply_to_comment (github_api app) owner name pr_number cid body))
                 (\<lambda>_. return_io \<lparr>content = Json [(S ''success'', PBool True)], status = 200\<rparr>)
         | None \<Rightarrow>
             return_io
               \<lparr>content = Json [(S ''success'', PBool False),
                                (S ''error'', PStr comment_id_and_body_required)],
                status = 400\<rparr>))))"

text \<open>The two \<^verbatim>\<open>except\<close> clauses of \<^verbatim>\<open>add_reply\<close>.\<close>

fun reply_error :: "exn \<Rightarrow> response" where
  "reply_error (GitHubAPIError m) =
     \<lparr>content = Json [(S ''success'', PBool False),
                      (S ''error'', PStr (str_exn (GitHubAPIError m)))],
      status = 500\<rparr>"
| "reply_error (Exception c m) =
     \<lparr>content = Json [(S ''success'', PBool False),
                      (S ''error'', PStr (unexpected_error @ str_exn (Exception c m)))],
      status = 500\<rparr>"

definition add_reply :: "'w env \<Rightarrow> int \<Rightarrow> request \<Rightarrow> ('w, response) io" where
  "add_reply app pr_number req = try_except (add_reply_try app pr_number req) reply_error"

definition health :: "('w, response) io" where
  "health =
     return_io
       \<lparr>content = Json [(S ''status'', PStr (S ''ok'')),
                        (S ''service'', PStr (S ''code-review-checker''))],
        status = 200\<rparr>"

subsection \<open>The routes\<close>

text \<open>
  A route is a URL rule, the methods it listens to (\<^verbatim>\<open>GET\<close> when the decorator names
  none) and the view it runs. \<^verbatim>\<open>create_app\<close> starts from the object the \<^verbatim>\<open>Flask\<close>
  constructor returns, loads the configuration and registers its routes in the order of
  the decorators.
\<close>

datatype view = Index | PrDetail | AddReply | Health

record route =
  rule :: pystr
  methods :: "pystr list"
  endpoint :: view

record flask =
  app_config :: "config option"
  url_map :: "route list"

definition app_route :: "pystr \<Rightarrow> pystr list \<Rightarrow> view \<Rightarrow> flask \<Rightarrow> flask" where
  "app_route r ms v app = app\<lparr>url_map := url_map app @ [\<lparr>rule = r, methods = ms, endpoint = v\<rparr>]\<rparr>"

definition create_app :: "pystr option \<Rightarrow> flask \<Rightarrow> flask" where
  "create_app config_name flask0 =
     (let app = flask0\<lparr>app_config := Some (get_config config_name)\<rparr>;
          app = app_route (S ''/'') [S ''GET''] Index app;
          app = app_route (S ''/pr/<int:pr_number>'') [S ''GET''] PrDetail app;
          app = app_route (S ''/pr/<int:pr_number>/reply'') [S ''POST''] AddReply app;
          app = app_route (S ''/health'') [S ''GET''] Health app
      in app)"

text \<open>
  The view a matched route runs, with the \<^verbatim>\<open>pr_number\<close> the rule extracted from the URL
  (unused by the rules without one).
\<close>

fun run_view :: "'w env \<Rightarrow> view \<Rightarrow> int \<Rightarrow> request \<Rightarrow> ('w, response) io" where
  "run_view app Index pr_number req = index app req"
| "run_view app PrDetail pr_number req = pr_detail app pr_number req"
| "run_view app AddReply pr_number req = add_reply app pr_number req"
| "run_view app Health pr_number req = health"

subsection \<open>Observations on a handler's run\<close>

text \<open>The method of the client a recorded call went to.\<close>

datatype api_method = Get_repo_info | Get_my_pr_list | Get_comments_for_pr | Add_reply_to_comment

fun method_of :: "call \<Rightarrow> api_method" where
  "method_of GetRepoInfo = Get_repo_info"
| "method_of (GetMyPrList state) = Get_my_pr_list"
| "method_of (GetCommentsForPr owner name pr_number include_resolved) = Get_comments_for_pr"
| "method_of (AddReplyToComment owner name pr_number comment_id body) = Add_reply_to_comment"

text \<open>A handler's outcome is a response whose body is a rendered template.\<close>

fun returns_html :: "exn + response \<Rightarrow> bool" where
  "returns_html (Inr resp) = (case content resp of Html t kwargs \<Rightarrow> True | Json d \<Rightarrow> False)"
| "returns_html (Inl e) = False"

text \<open>
  The error message a response carries: the \<^verbatim>\<open>error_message\<close> argument of a rendered
  page, the \<^verbatim>\<open>error\<close> field of a JSON object.
\<close>

fun error_text :: "response \<Rightarrow> pystr option" where
  "error_text resp =
     (case content resp of
        Html t kwargs \<Rightarrow>
          (case map_of kwargs (S ''error_message'') of
             Some (Val (PStr m)) \<Rightarrow> Some m
           | _ \<Rightarrow> None)
      | Json d \<Rightarrow>
          (case map_of d (S ''error'') of
             Some (PStr m) \<Rightarrow> Some m
           | _ \<Rightarrow> None))"

text \<open>
  What the wrapping of \<^verbatim>\<open>pr_detail\<close> may change, stated on the data before and after.
  \<open>field d k\<close> is \<^verbatim>\<open>d.get(k)\<close>. A reply keeps its keys and every field but
  \<^verbatim>\<open>bodyHTML\<close>, which is wrapped as markup when truthy and kept otherwise. A comment keeps
  every field but \<^verbatim>\<open>bodyHTML_safe\<close> and \<^verbatim>\<open>replies\<close>; \<^verbatim>\<open>bodyHTML_safe\<close> is its
  \<^verbatim>\<open>bodyHTML\<close> as markup, or empty markup when that is falsy; truthy \<^verbatim>\<open>replies\<close> are a
  list of wrapped replies. The PR data keep their keys and every field but
  \<^verbatim>\<open>comments\<close>; truthy \<^verbatim>\<open>comments\<close> are a list of wrapped comments.
\<close>

definition field :: "(pystr \<times> pyval) list \<Rightarrow> pystr \<Rightarrow> pyval" where
  "field d k = (case map_of d k of Some v \<Rightarrow> v | None \<Rightarrow> PNone)"

fun reply_wrapped :: "(pyval \<Rightarrow> pystr) \<Rightarrow> pyval \<Rightarrow> pyval \<Rightarrow> bool" where
  "reply_wrapped str_of (PDict d) (PDict d') \<longleftrightarrow>
     map fst d' = map fst d \<and>
     AList.delete (S ''bodyHTML'') d' = AList.delete (S ''bodyHTML'') d \<and>
     map_of d' (S ''bodyHTML'') =
       (if truthy (field d (S ''bodyHTML''))
        then Some (Markup str_of (field d (S ''bodyHTML'')))
        else map_of d (S ''bodyHTML''))"
| "reply_wrapped str_of reply reply' \<longleftrightarrow> False"

fun comment_wrapped :: "(pyval \<Rightarrow> pystr) \<Rightarrow> pyval \<Rightarrow> pyval \<Rightarrow> bool" where
  "comment_wrapped str_of (PDict d) (PDict d') \<longleftrightarrow>
     AList.delete (S ''bodyHTML_safe'') (AList.delete (S ''replies'') d') =
       AList.delete (S ''bodyHTML_safe'') (AList.delete (S ''replies'') d) \<and>
     map_of d' (S ''bodyHTML_safe'') =
       Some (if truthy (field d (S ''bodyHTML''))
             then Markup str_of (field d (S ''bodyHTML''))
             else Markup str_of (PStr [])) \<and>
     (if truthy (field d (S ''replies''))
      then (case (field d (S ''replies''), map_of d' (S ''replies'')) of
              (PList rs, Some (PList rs')) \<Rightarrow> list_all2 (reply_wrapped str_of) rs rs'
            | _ \<Rightarrow> False)
      else map_of d' (S ''replies'') = map_of d (S ''replies''))"
| "comment_wrapped str_of comment comment' \<longleftrightarrow> False"

fun pr_wrapped :: "(pyval \<Rightarrow> pystr) \<Rightarrow> pyval \<Rightarrow> pyval \<Rightarrow> bool" where
  "pr_wrapped str_of (PDict d) (PDict d') \<longleftrightarrow>
     map fst d' = map fst d \<and>
     AList.delete (S ''comments'') d' = AList.delete (S ''comments'') d \<and>
     (if truthy (field d (S ''comments''))
      then (case (field d (S ''comments''), map_of d' (S ''comments'')) of
              (PList cs, Some (PList cs')) \<Rightarrow> list_all2 (comment_wrapped str_of) cs cs'
            | _ \<Rightarrow> False)
      else map_of d' (S ''comments'') = map_of d (S ''comments''))"
| "pr_wrapped str_of pr_data pr \<longleftrightarrow> False"

text \<open>
  The shape of the data the claims about the PR detail speak of: PR data are a dict; its
  \<^verbatim>\<open>comments\<close>, when truthy, are a list of dicts; the \<^verbatim>\<open>replies\<close> of a comment, when
  truthy, are a list of dicts.
\<close>

fun is_dict :: "pyval \<Rightarrow> bool" where
  "is_dict (PDict d) = True"
| "is_dict v = False"

fun comment_shaped :: "pyval \<Rightarrow> bool" where
  "comment_shaped (PDict d) =
     (if truthy (field d (S ''replies''))
      then (case field d (S ''replies'') of PList rs \<Rightarrow> list_all is_dict rs | _ \<Rightarrow> False)
      else True)"
| "comment_shaped v = False"

fun pr_shaped :: "pyval \<Rightarrow> bool" where
  "pr_shaped (PDict d) =
     (if truthy (field d (S ''comments''))
      then (case field d (S ''comments'') of PList cs \<Rightarrow> list_all comment_shaped cs
            | _ \<Rightarrow> False)
      else True)"
| "pr_shaped v = False"

section \<open>Example inputs\<close>



text \<open>
  A client over a world that counts the calls made to it: a repository octocat/hello, no
  pull requests, no data for any PR, and replies that are accepted.
\<close>

definition demo_repo :: pyval where
  "demo_repo = PDict [(S ''owner'', PStr (S ''octocat'')), (S ''name'', PStr (S ''hello''))]"

definition demo_api :: "nat github_api" where
  "demo_api =
     \<lparr>get_repo_info = (\<lambda>w. (Inr demo_repo, Suc w)),
      get_my_pr_list = (\<lambda>state w. (Inr (PList []), Suc w)),
      get_comments_for_pr = (\<lambda>owner name pr_number include_resolved w. (Inr PNone, Suc w)),
      add_reply_to_comment = (\<lambda>owner name pr_number comment_id body w. (Inr PNone, Suc w))\<rparr>"

definition demo_env :: "nat env" where
  "demo_env = \<lparr>config = get_config None, github_api = demo_api, py_str = (\<lambda>v. [])\<rparr>"

text \<open>The same client when GitHub cannot be reached.\<close>

definition failing_env :: "nat env" where
  "failing_env =
     \<lparr>config = get_config None,
      github_api =
        demo_api\<lparr>get_repo_info := (\<lambda>w. (Inl (GitHubAPIError (S ''rate limit'')), Suc w))\<rparr>,
      py_str = (\<lambda>v. [])\<rparr>"

definition empty_request :: request where
  "empty_request = \<lparr>args = Map.empty, form = Map.empty\<rparr>"

definition reply_request :: request where
  "reply_request =
     \<lparr>args = Map.empty,
      form = [S ''comment_id'' \<mapsto> S ''42'', S ''body'' \<mapsto> S '' thanks '']\<rparr>"

text \<open>
  A client whose PR 7 has one comment with two replies, the first reply's \<^verbatim>\<open>bodyHTML\<close>
  being the empty string; the data after the wrapping, and the page \<^verbatim>\<open>pr_detail\<close>
  renders for it.
\<close>

definition review_pr_data :: pyval where
  "review_pr_data =
     PDict [(S ''number'', PInt 7),
            (S ''comments'',
             PList [PDict [(S ''bodyHTML'', PStr (S ''<p>fix</p>'')),
                           (S ''replies'',
                            PList [PDict [(S ''bodyHTML'', PStr [])],
                                   PDict [(S ''author'', PStr (S ''bob'')),
                                          (S ''bodyHTML'', PStr (S ''<p>ok</p>''))]])]])]"

definition review_pr :: pyval where
  "review_pr =
     PDict [(S ''number'', PInt 7),
            (S ''comments'',
             PList [PDict [(S ''bodyHTML'', PStr (S ''<p>fix</p>'')),
                           (S ''replies'',
                            PList [PDict [(S ''bodyHTML'', PStr [])],
                                   PDict [(S ''author'', PStr (S ''bob'')),
                                          (S ''bodyHTML'', PMarkup (S ''<p>ok</p>''))]]),
                           (S ''bodyHTML_safe'', PMarkup (S ''<p>fix</p>''))]])]"

definition review_env :: "nat env" where
  "review_env =
     \<lparr>config = get_config None,
      github_api =
        demo_api\<lparr>get_comments_for_pr :=
                   (\<lambda>owner name pr_number include_resolved w. (Inr review_pr_data, Suc w))\<rparr>,
      py_str = (\<lambda>v. [])\<rparr>"

definition review_page :: response where
  "review_page =
     \<lparr>content = render_template (S ''pr_detail.html'')
        [(S ''pr'', Val review_pr),
         (S ''owner'', Val (PStr (S ''octocat''))), (S ''name'', Val (PStr (S ''hello''))),
         (S ''include_resolved'', Val (PBool False)), (S ''compact_mode'', Val (PBool False)),
         (S ''config'', Cfg (get_config None))],
      status = 200\<rparr>"

section \<open>Properties\<close>

declare str_nat.simps [simp del]

subsection \<open>The health check\<close>

text \<open>
  C7. For every request, every configuration and client, and every state of the outside
  world, the health check returns the JSON object with status "ok" and service
  "code-review-checker" (status code 200); it makes no call to the GitHub API (the trace
  is unchanged) and leaves the outside world as it was.
\<close>

theorem health_constant:
  "run_view app Health pr_number req (w, tr) =
     (Inr \<lparr>content = Json [(S ''status'', PStr (S ''ok'')),
                           (S ''service'', PStr (S ''code-review-checker''))],
           status = 200\<rparr>, (w, tr))"
  by (simp add: health_def return_io_def)

subsection \<open>The routes\<close>

text \<open>
  C6. \<^verbatim>\<open>create_app\<close> registers exactly four routes, in this order, after whatever the
  \<^verbatim>\<open>Flask\<close> constructor had registered: GET "/" for the PR list, GET
  "/pr/<int:pr_number>" for the PR detail, POST "/pr/<int:pr_number>/reply" for a reply,
  and GET "/health" for the health check.
\<close>

theorem create_app_routes:
  "url_map (create_app config_name flask0) =
     url_map flask0 @
     [\<lparr>rule = S ''/'', methods = [S ''GET''], endpoint = Index\<rparr>,
      \<lparr>rule = S ''/pr/<int:pr_number>'', methods = [S ''GET''], endpoint = PrDetail\<rparr>,
      \<lparr>rule = S ''/pr/<int:pr_number>/reply'', methods = [S ''POST''], endpoint = AddReply\<rparr>,
      \<lparr>rule = S ''/health'', methods = [S ''GET''], endpoint = Health\<rparr>]"
  by (simp add: create_app_def app_route_def Let_def)

subsection \<open>The time filter\<close>




subsection \<open>Runs of the handlers\<close>

lemmas io_defs = bind_io_def return_io_def lift_io_def invoke_def try_except_def

lemma error_page_status: "status (error_page cfg e) = 500"
  by (cases e) simp_all

lemma reply_error_status: "status (reply_error e) = 500"
  by (cases e) simp_all

lemma S_inj: "S a = S b \<longleftrightarrow> a = b"
  unfolding S_def by (rule inj_map_eq_map) (simp add: inj_on_def)

lemma demo_reply_run:
  "add_reply demo_env 7 reply_request (0, []) =
     (Inr \<lparr>content = Json [(S ''success'', PBool True)], status = 200\<rparr>,
      (2, [(GetRepoInfo, Inr demo_repo),
           (AddReplyToComment (PStr (S ''octocat'')) (PStr (S ''hello'')) 7 (S ''42'') (S ''thanks''),
            Inr PNone)]))"
  by (simp add: add_reply_def add_reply_try_def io_defs demo_env_def demo_api_def demo_repo_def
      reply_request_def S_inj strip_def isspace_def S_def)

lemma failing_index_run:
  "index failing_env empty_request (0, []) =
     (Inr (error_page (get_config None) (GitHubAPIError (S ''rate limit''))),
      (1, [(GetRepoInfo, Inl (GitHubAPIError (S ''rate limit'')))]))"
  by (simp add: index_def index_try_def io_defs Let_def failing_env_def demo_api_def
      empty_request_def)

subsection \<open>Calls to the GitHub client\<close>

text \<open>
  C1. In the handling of one request, whatever the route, each method of the GitHub client
  is called at most once; every call but the last returned normally, so nothing is called
  after a call that raised; when the last call raised, the handler returns a response with
  status 500; and every route but the health check starts by asking the client for the
  repository again, so nothing is served from an earlier request.
\<close>

theorem api_called_at_most_once:
  assumes "run_view app v pr_number req (w, []) = (r, (w', tr))"
  shows "(\<forall>m. length (filter (\<lambda>c. method_of (fst c) = m) tr) \<le> 1) \<and>
         (\<forall>c \<in> set (butlast tr). \<not> isl (snd c)) \<and>
         (tr \<noteq> [] \<and> isl (snd (last tr)) \<longrightarrow> (\<exists>resp. r = Inr resp \<and> status resp = 500)) \<and>
         (v \<noteq> Health \<longrightarrow> tr \<noteq> [] \<and> fst (hd tr) = GetRepoInfo)"
proof (cases v)
  case Index
  with assms show ?thesis
    by (auto simp: index_def index_try_def io_defs Let_def error_page_status
             split: prod.splits sum.splits option.splits)
next
  case PrDetail
  with assms show ?thesis
    by (auto simp: pr_detail_def pr_detail_try_def io_defs Let_def error_page_status
             split: prod.splits sum.splits option.splits if_splits)
next
  case AddReply
  with assms show ?thesis
    by (auto simp: add_reply_def add_reply_try_def io_defs Let_def reply_error_status
             split: prod.splits sum.splits option.splits if_splits)
next
  case Health
  with assms show ?thesis
    by (auto simp: health_def io_defs)
qed

theorem api_called_at_most_once_witness:
  "(\<forall>m. length (filter (\<lambda>c. method_of (fst c) = m)
            [(GetRepoInfo, Inl (GitHubAPIError (S ''rate limit'')))]) \<le> 1) \<and>
   (\<exists>resp. fst (run_view failing_env Index 7 empty_request (0, [])) = Inr resp \<and>
           status resp = 500)"
proof -
  have run: "run_view failing_env Index 7 empty_request (0, []) =
     (Inr (error_page (get_config None) (GitHubAPIError (S ''rate limit''))),
      (1, [(GetRepoInfo, Inl (GitHubAPIError (S ''rate limit'')))]))"
    by (simp add: failing_index_run)
  from api_called_at_most_once [OF run] show ?thesis
    by (simp add: failing_index_run)
qed

subsection \<open>Bodies of the responses\<close>

lemma error_page_html:
  "(case content (error_page cfg e) of Html t kwargs \<Rightarrow> True | Json d \<Rightarrow> False) = True"
  by (cases e) (simp_all add: render_template_def)

lemma reply_error_json:
  "(case content (reply_error e) of Html t kwargs \<Rightarrow> True | Json d \<Rightarrow> False) = False"
  by (cases e) simp_all

lemma reply_error_shape:
  "\<exists>m. reply_error e =
         \<lparr>content = Json [(S ''success'', PBool False), (S ''error'', PStr m)], status = 500\<rparr>"
  by (cases e) simp_all

lemma reply_error_content:
  "content (reply_error e) =
     Json [(S ''success'', PBool False),
           (S ''error'', PStr (case e of GitHubAPIError m \<Rightarrow> m
                               | Exception c m \<Rightarrow> unexpected_error @ m))]"
  by (cases e) simp_all

text \<open>
  C2, as stated, fails on the reply route: it calls the GitHub client twice and answers
  with a JSON object, not with a rendered template.
\<close>

theorem add_reply_json_counterexample:
  "fst (run_view demo_env AddReply 7 reply_request (0, [])) =
     Inr \<lparr>content = Json [(S ''success'', PBool True)], status = 200\<rparr> \<and>
   \<not> returns_html (fst (run_view demo_env AddReply 7 reply_request (0, [])))"
  by (simp add: demo_reply_run)

text \<open>
  C2, amended. For every request the PR list and the PR detail return a rendered template.
  The reply route, which also calls the GitHub client, never returns a rendered template:
  it returns a JSON object with a \<^verbatim>\<open>success\<close> flag, true exactly when the status is 200,
  and with an \<^verbatim>\<open>error\<close> message whenever the flag is false.
\<close>

theorem html_routes_render:
  "returns_html (fst (index app req s)) \<and>
   returns_html (fst (pr_detail app pr_number req s)) \<and>
   \<not> returns_html (fst (add_reply app pr_number req s)) \<and>
   (\<exists>resp d success.
      fst (add_reply app pr_number req s) = Inr resp \<and> content resp = Json d \<and>
      map_of d (S ''success'') = Some (PBool success) \<and>
      (success \<longleftrightarrow> status resp = 200) \<and>
      (success \<or> (\<exists>m. map_of d (S ''error'') = Some (PStr m))))"
proof (intro conjI)
  show "returns_html (fst (index app req s))"
    by (cases s) (auto simp: index_def index_try_def io_defs Let_def render_template_def
        error_page_html split: prod.splits sum.splits option.splits)
  show "returns_html (fst (pr_detail app pr_number req s))"
    by (cases s) (auto simp: pr_detail_def pr_detail_try_def io_defs Let_def render_template_def
        error_page_html split: prod.splits sum.splits option.splits)
  show "\<not> returns_html (fst (add_reply app pr_number req s))"
    by (cases s) (auto simp: add_reply_def add_reply_try_def io_defs Let_def
        reply_error_json split: prod.splits sum.splits option.splits)
  show "\<exists>resp d success.
      fst (add_reply app pr_number req s) = Inr resp \<and> content resp = Json d \<and>
      map_of d (S ''success'') = Some (PBool success) \<and>
      (success \<longleftrightarrow> status resp = 200) \<and>
      (success \<or> (\<exists>m. map_of d (S ''error'') = Some (PStr m)))"
  proof (cases "fst (add_reply_try app pr_number req s)")
    case (Inl e)
    obtain m where "reply_error e =
        \<lparr>content = Json [(S ''success'', PBool False), (S ''error'', PStr m)], status = 500\<rparr>"
      using reply_error_shape by blast
    with Inl show ?thesis
      by (auto simp: add_reply_def try_except_def S_inj split: prod.splits sum.splits)
  next
    case (Inr resp)
    then have r: "fst (add_reply app pr_number req s) = Inr resp"
      by (auto simp: add_reply_def try_except_def split: prod.splits sum.splits)
    from Inr have "resp = \<lparr>content = Json [(S ''success'', PBool True)], status = 200\<rparr> \<or>
        resp = \<lparr>content = Json [(S ''success'', PBool False),
                                 (S ''error'', PStr comment_id_and_body_required)],
                status = 400\<rparr>"
      by (cases s) (auto simp: add_reply_try_def io_defs Let_def
          split: prod.splits sum.splits option.splits if_splits)
    with r show ?thesis
      by (auto simp: S_inj)
  qed
qed

subsection \<open>Exceptions\<close>

text \<open>
  C10. No handler lets an exception out: every route returns a response for every request.
  An exception raised in a handler's \<^verbatim>\<open>try\<close> block, a \<^verbatim>\<open>GitHubAPIError\<close> or any other,
  becomes a response with status 500 that carries the exception's message (after a fixed
  prefix when it is not a \<^verbatim>\<open>GitHubAPIError\<close>). The PR detail returns status 404 when
  \<^verbatim>\<open>get_comments_for_pr\<close> returns no data (a falsy value) for the PR.
\<close>

theorem handlers_never_propagate:
  "(\<exists>resp. fst (run_view app v pr_number req s) = Inr resp) \<and>
   (\<forall>e. fst (index_try app (case args req (S ''state'') of Some x \<Rightarrow> x
                                | None \<Rightarrow> DEFAULT_PR_STATE (config app)) s) = Inl e \<longrightarrow>
      (\<exists>resp. fst (index app req s) = Inr resp \<and> status resp = 500 \<and>
         error_text resp = Some (case e of GitHubAPIError m \<Rightarrow> m
                                  | Exception c m \<Rightarrow> unexpected_error_occurred @ m))) \<and>
   (\<forall>e. fst (pr_detail_try app pr_number (flag req (S ''include_resolved''))
                (flag req (S ''compact_mode'')) s) = Inl e \<longrightarrow>
      (\<exists>resp. fst (pr_detail app pr_number req s) = Inr resp \<and> status resp = 500 \<and>
         error_text resp = Some (case e of GitHubAPIError m \<Rightarrow> m
                                  | Exception c m \<Rightarrow> unexpected_error_occurred @ m))) \<and>
   (\<forall>e. fst (add_reply_try app pr_number req s) = Inl e \<longrightarrow>
      (\<exists>resp. fst (add_reply app pr_number req s) = Inr resp \<and> status resp = 500 \<and>
         error_text resp = Some (case e of GitHubAPIError m \<Rightarrow> m
                                  | Exception c m \<Rightarrow> unexpected_error @ m))) \<and>
   (\<forall>w tr repo w1 owner name pr_data w2.
      s = (w, tr) \<and> get_repo_info (github_api app) w = (Inr repo, w1) \<and>
      getitem repo (S ''owner'') = Inr owner \<and> getitem repo (S ''name'') = Inr name \<and>
      get_comments_for_pr (github_api app) owner name pr_number
        (flag req (S ''include_resolved'')) w1 = (Inr pr_data, w2) \<and>
      \<not> truthy pr_data \<longrightarrow>
      (\<exists>resp. fst (pr_detail app pr_number req s) = Inr resp \<and> status resp = 404))"
proof (intro conjI allI impI)
  show "\<exists>resp. fst (run_view app v pr_number req s) = Inr resp"
    by (cases v; cases s)
       (auto simp: index_def pr_detail_def add_reply_def health_def try_except_def return_io_def
             Let_def split: prod.splits sum.splits)
next
  fix e
  assume "fst (index_try app (case args req (S ''state'') of Some x \<Rightarrow> x
                                | None \<Rightarrow> DEFAULT_PR_STATE (config app)) s) = Inl e"
  then show "\<exists>resp. fst (index app req s) = Inr resp \<and> status resp = 500 \<and>
         error_text resp = Some (case e of GitHubAPIError m \<Rightarrow> m
                                  | Exception c m \<Rightarrow> unexpected_error_occurred @ m)"
    by (cases e)
       (auto simp: index_def try_except_def Let_def render_template_def S_inj
             split: prod.splits sum.splits)
next
  fix e
  assume "fst (pr_detail_try app pr_number (flag req (S ''include_resolved''))
                (flag req (S ''compact_mode'')) s) = Inl e"
  then show "\<exists>resp. fst (pr_detail app pr_number req s) = Inr resp \<and> status resp = 500 \<and>
         error_text resp = Some (case e of GitHubAPIError m \<Rightarrow> m
                                  | Exception c m \<Rightarrow> unexpected_error_occurred @ m)"
    by (cases e)
       (auto simp: pr_detail_def try_except_def Let_def render_template_def S_inj
             split: prod.splits sum.splits)
next
  fix e
  assume "fst (add_reply_try app pr_number req s) = Inl e"
  then show "\<exists>resp. fst (add_reply app pr_number req s) = Inr resp \<and> status resp = 500 \<and>
         error_text resp = Some (case e of GitHubAPIError m \<Rightarrow> m
                                  | Exception c m \<Rightarrow> unexpected_error @ m)"
    by (cases e)
       (auto simp: add_reply_def try_except_def S_inj split: prod.splits sum.splits)
next
  fix w tr repo w1 owner name pr_data w2
  assume "s = (w, tr) \<and> get_repo_info (github_api app) w = (Inr repo, w1) \<and>
      getitem repo (S ''owner'') = Inr owner \<and> getitem repo (S ''name'') = Inr name \<and>
      get_comments_for_pr (github_api app) owner name pr_number
        (flag req (S ''include_resolved'')) w1 = (Inr pr_data, w2) \<and>
      \<not> truthy pr_data"
  then show "\<exists>resp. fst (pr_detail app pr_number req s) = Inr resp \<and> status resp = 404"
    by (simp add: pr_detail_def pr_detail_try_def io_defs Let_def)
qed

theorem handlers_never_propagate_witness:
  "\<exists>resp. fst (index failing_env empty_request (0, [])) = Inr resp \<and> status resp = 500 \<and>
          error_text resp = Some (S ''rate limit'')"
proof -
  have t: "fst (index_try failing_env
                 (case args empty_request (S ''state'') of Some x \<Rightarrow> x
                  | None \<Rightarrow> DEFAULT_PR_STATE (config failing_env)) (0, [])) =
           Inl (GitHubAPIError (S ''rate limit''))"
    by (simp add: index_try_def io_defs failing_env_def demo_api_def empty_request_def)
  from handlers_never_propagate [of failing_env Index 7 empty_request "(0, [])",
          THEN conjunct2, THEN conjunct1, rule_format, OF t]
  show ?thesis by simp
qed

subsection \<open>The PR list\<close>

text \<open>
  C3. For a request that carries no \<^verbatim>\<open>state\<close> query parameter the PR list works with
  the state \<^verbatim>\<open>config.DEFAULT_PR_STATE\<close>, which is "open" in the configuration of
  \<^verbatim>\<open>get_config\<close>. It never asks the client for pull requests in another state. When the
  repository is known (the client returns it, with its owner and name) the handler makes
  exactly two calls, \<^verbatim>\<open>get_repo_info\<close> and then \<^verbatim>\<open>get_my_pr_list\<close> with that state, and
  when the second returns a list the response is the page \<^verbatim>\<open>index.html\<close> rendered with
  that list, the owner, the name and the state, with status 200.
\<close>

theorem index_default_state:
  assumes "args req (S ''state'') = None"
      and "DEFAULT_PR_STATE (config app) = state"
      and "index app req (w, []) = (r, (w', tr))"
  shows "(\<forall>c \<in> set tr. method_of (fst c) = Get_my_pr_list \<longrightarrow> fst c = GetMyPrList state) \<and>
         (\<forall>repo w1 owner name res w2.
            get_repo_info (github_api app) w = (Inr repo, w1) \<and>
            getitem repo (S ''owner'') = Inr owner \<and> getitem repo (S ''name'') = Inr name \<and>
            get_my_pr_list (github_api app) state w1 = (res, w2) \<longrightarrow>
            tr = [(GetRepoInfo, Inr repo), (GetMyPrList state, res)] \<and> w' = w2 \<and>
            (\<forall>prs. res = Inr prs \<longrightarrow>
               r = Inr \<lparr>content = render_template (S ''index.html'')
                            [(S ''prs'', Val prs), (S ''owner'', Val owner),
                             (S ''name'', Val name), (S ''state'', Val (PStr state)),
                             (S ''config'', Cfg (config app))],
                         status = 200\<rparr>)) \<and>
         (config app = get_config config_name \<longrightarrow> state = S ''open'')"
  using assms
  by (auto simp: index_def index_try_def io_defs Let_def get_config_def
           split: prod.splits sum.splits)

theorem index_default_state_witness:
  "index demo_env empty_request (0, []) =
     (Inr \<lparr>content = render_template (S ''index.html'')
              [(S ''prs'', Val (PList [])), (S ''owner'', Val (PStr (S ''octocat''))),
               (S ''name'', Val (PStr (S ''hello''))), (S ''state'', Val (PStr (S ''open''))),
               (S ''config'', Cfg (get_config None))],
           status = 200\<rparr>,
      (2, [(GetRepoInfo, Inr demo_repo), (GetMyPrList (S ''open''), Inr (PList []))]))"
proof -
  have a: "args empty_request (S ''state'') = None"
    by (simp add: empty_request_def)
  have c: "config demo_env = get_config None"
    by (simp add: demo_env_def)
  obtain st where st: "DEFAULT_PR_STATE (config demo_env) = st"
    by simp
  obtain r w' tr where run: "index demo_env empty_request (0, []) = (r, (w', tr))"
    by (metis surj_pair)
  note t = index_default_state [OF a st run, of None]
  from t c have o: "st = S ''open''"
    by blast
  have k: "get_repo_info (github_api demo_env) 0 = (Inr demo_repo, 1) \<and>
           getitem demo_repo (S ''owner'') = Inr (PStr (S ''octocat'')) \<and>
           getitem demo_repo (S ''name'') = Inr (PStr (S ''hello'')) \<and>
           get_my_pr_list (github_api demo_env) st 1 = (Inr (PList []), 2)"
    by (simp add: demo_env_def demo_api_def demo_repo_def S_inj)
  from t [THEN conjunct2, THEN conjunct1, rule_format, OF k] run o c show ?thesis
    by simp
qed

subsection \<open>Replies\<close>

text \<open>
  C4. When the repository is known and the form carries a non-empty \<^verbatim>\<open>comment_id\<close> and
  a body that is non-empty after stripping, the reply route makes exactly one call to
  \<^verbatim>\<open>add_reply_to_comment\<close>, after \<^verbatim>\<open>get_repo_info\<close>, with the repository's owner and
  name, the \<^verbatim>\<open>pr_number\<close> of the URL, the \<^verbatim>\<open>comment_id\<close> and the stripped body; when
  that call returns, the response is the JSON object with success true.
\<close>

theorem add_reply_forwards:
  assumes "get_repo_info (github_api app) w = (Inr repo, w1)"
      and "getitem repo (S ''owner'') = Inr owner"
      and "getitem repo (S ''name'') = Inr name"
      and "form req (S ''comment_id'') = Some comment_id"
      and "comment_id \<noteq> []"
      and "strip (case form req (S ''body'') of Some v \<Rightarrow> v | None \<Rightarrow> []) = body"
      and "body \<noteq> []"
      and "add_reply_to_comment (github_api app) owner name pr_number comment_id body w1 = (res, w2)"
  shows "snd (add_reply app pr_number req (w, tr)) =
           (w2, tr @ [(GetRepoInfo, Inr repo),
                      (AddReplyToComment owner name pr_number comment_id body, res)]) \<and>
         (\<not> isl res \<longrightarrow>
            fst (add_reply app pr_number req (w, tr)) =
              Inr \<lparr>content = Json [(S ''success'', PBool True)], status = 200\<rparr>)"
  using assms
  by (auto simp: add_reply_def add_reply_try_def io_defs Let_def split: sum.splits)

theorem add_reply_forwards_witness:
  "snd (add_reply demo_env 7 reply_request (0, [])) =
     (2, [(GetRepoInfo, Inr demo_repo),
          (AddReplyToComment (PStr (S ''octocat'')) (PStr (S ''hello'')) 7 (S ''42'') (S ''thanks''),
           Inr PNone)]) \<and>
   fst (add_reply demo_env 7 reply_request (0, [])) =
     Inr \<lparr>content = Json [(S ''success'', PBool True)], status = 200\<rparr>"
proof -
  have 1: "get_repo_info (github_api demo_env) 0 = (Inr demo_repo, 1)"
    by (simp add: demo_env_def demo_api_def)
  have 2: "getitem demo_repo (S ''owner'') = Inr (PStr (S ''octocat''))"
    by (simp add: demo_repo_def)
  have 3: "getitem demo_repo (S ''name'') = Inr (PStr (S ''hello''))"
    by (simp add: demo_repo_def S_inj)
  have 4: "form reply_request (S ''comment_id'') = Some (S ''42'')"
    by (simp add: reply_request_def S_inj)
  have 5: "S ''42'' \<noteq> []"
    by (simp add: S_def)
  have 6: "strip (case form reply_request (S ''body'') of Some v \<Rightarrow> v | None \<Rightarrow> []) = S ''thanks''"
    by (simp add: reply_request_def strip_def isspace_def S_def)
  have 7: "S ''thanks'' \<noteq> []"
    by (simp add: S_def)
  have 8: "add_reply_to_comment (github_api demo_env) (PStr (S ''octocat'')) (PStr (S ''hello''))
             7 (S ''42'') (S ''thanks'') 1 = (Inr PNone, 2)"
    by (simp add: demo_env_def demo_api_def)
  from add_reply_forwards [OF 1 2 3 4 5 6 7 8, of "[]"] show ?thesis by simp
qed

text \<open>
  C9, as stated, fails when the repository cannot be fetched: the form is checked after
  \<^verbatim>\<open>get_repo_info\<close>, so a request without \<^verbatim>\<open>comment_id\<close> gets status 500, not 400.
\<close>

theorem add_reply_bad_form_counterexample:
  "form empty_request (S ''comment_id'') = None \<and>
   fst (run_view failing_env AddReply 7 empty_request (0, [])) =
     Inr \<lparr>content = Json [(S ''success'', PBool False), (S ''error'', PStr (S ''rate limit''))],
          status = 500\<rparr>"
  by (simp add: add_reply_def add_reply_try_def io_defs failing_env_def demo_api_def
      empty_request_def)

text \<open>
  C9, amended. The reply route returns status 400 if and only if the repository is known
  (\<^verbatim>\<open>get_repo_info\<close> returns it, with its owner and name) and the form's \<^verbatim>\<open>comment_id\<close>
  is missing or empty or its body is empty after stripping; the body of that response is
  the JSON object with success false. When the repository is not known the response has
  status 500, with success false and an error message, whatever the form holds. Whenever
  the \<^verbatim>\<open>comment_id\<close> is missing or empty or the stripped body is empty,
  \<^verbatim>\<open>add_reply_to_comment\<close> is not called.
\<close>

theorem add_reply_bad_request:
  assumes "add_reply app pr_number req (w, []) = (r, (w', tr))"
  shows "(\<exists>resp. r = Inr resp \<and>
            (status resp = 400 \<longleftrightarrow>
               (\<exists>repo w1 owner name.
                  get_repo_info (github_api app) w = (Inr repo, w1) \<and>
                  getitem repo (S ''owner'') = Inr owner \<and>
                  getitem repo (S ''name'') = Inr name) \<and>
               (form req (S ''comment_id'') = None \<or> form req (S ''comment_id'') = Some [] \<or>
                strip (case form req (S ''body'') of Some v \<Rightarrow> v | None \<Rightarrow> []) = [])) \<and>
            (status resp = 400 \<longrightarrow>
               content resp = Json [(S ''success'', PBool False),
                                    (S ''error'', PStr comment_id_and_body_required)]) \<and>
            (\<not> (\<exists>repo w1 owner name.
                  get_repo_info (github_api app) w = (Inr repo, w1) \<and>
                  getitem repo (S ''owner'') = Inr owner \<and>
                  getitem repo (S ''name'') = Inr name) \<longrightarrow>
               status resp = 500 \<and>
               (\<exists>m. content resp = Json [(S ''success'', PBool False), (S ''error'', PStr m)]))) \<and>
         (form req (S ''comment_id'') = None \<or> form req (S ''comment_id'') = Some [] \<or>
          strip (case form req (S ''body'') of Some v \<Rightarrow> v | None \<Rightarrow> []) = [] \<longrightarrow>
            (\<forall>c \<in> set tr. method_of (fst c) \<noteq> Add_reply_to_comment))"
  using assms
  by (auto simp: add_reply_def add_reply_try_def io_defs Let_def reply_error_status
           reply_error_content
           split: prod.splits sum.splits option.splits if_splits)

theorem add_reply_bad_request_witness:
  "(\<exists>resp. fst (add_reply demo_env 7 empty_request (0, [])) = Inr resp \<and> status resp = 400 \<and>
           content resp = Json [(S ''success'', PBool False),
                                (S ''error'', PStr comment_id_and_body_required)]) \<and>
   (\<exists>resp. fst (add_reply failing_env 7 empty_request (0, [])) = Inr resp \<and>
           status resp = 500)"
proof -
  obtain r w' tr where run: "add_reply demo_env 7 empty_request (0, []) = (r, (w', tr))"
    by (metis surj_pair)
  have ok: "\<exists>repo w1 owner name.
              get_repo_info (github_api demo_env) 0 = (Inr repo, w1) \<and>
              getitem repo (S ''owner'') = Inr owner \<and> getitem repo (S ''name'') = Inr name"
    by (simp add: demo_env_def demo_api_def demo_repo_def S_inj)
  have bad: "form empty_request (S ''comment_id'') = None"
    by (simp add: empty_request_def)
  from add_reply_bad_request [OF run] ok bad run
  have a: "\<exists>resp. fst (add_reply demo_env 7 empty_request (0, [])) = Inr resp \<and>
             status resp = 400 \<and>
             content resp = Json [(S ''success'', PBool False),
                                  (S ''error'', PStr comment_id_and_body_required)]"
    by auto
  obtain r2 w2 tr2 where run2: "add_reply failing_env 7 empty_request (0, []) = (r2, (w2, tr2))"
    by (metis surj_pair)
  have no: "\<not> (\<exists>repo w1 owner name.
              get_repo_info (github_api failing_env) 0 = (Inr repo, w1) \<and>
              getitem repo (S ''owner'') = Inr owner \<and> getitem repo (S ''name'') = Inr name)"
    by (simp add: failing_env_def demo_api_def)
  from add_reply_bad_request [OF run2] no run2
  have b: "\<exists>resp. fst (add_reply failing_env 7 empty_request (0, [])) = Inr resp \<and>
             status resp = 500"
    by auto
  from a b show ?thesis by blast
qed

subsection \<open>The PR detail\<close>

lemma for_each_list_all2:
  assumes "\<And>x y. f x = Inr y \<Longrightarrow> P x y"
  shows "for_each f xs = Inr ys \<Longrightarrow> list_all2 P xs ys"
proof (induction xs arbitrary: ys)
  case Nil
  then show ?case by simp
next
  case (Cons x xs)
  then show ?case
    by (auto split: sum.splits intro: assms)
qed

lemma for_each_stops: "f x = Inl e \<Longrightarrow> for_each f (x # xs) = Inl e"
  by simp

lemma truthy_field_present: "truthy (field d k) \<Longrightarrow> \<exists>v. map_of d k = Some v \<and> field d k = v"
  by (auto simp: field_def split: option.splits)

lemma present_key: "map_of d k = Some v \<Longrightarrow> k \<in> fst ` set d"
  by (force dest: map_of_SomeD)

lemma wrap_reply_wrapped:
  "wrap_reply str_of reply = Inr reply' \<Longrightarrow> reply_wrapped str_of reply reply'"
proof (cases reply)
  case (PDict d)
  assume a: "wrap_reply str_of reply = Inr reply'"
  show ?thesis
  proof (cases "truthy (field d (S ''bodyHTML''))")
    case True
    then obtain v where v: "map_of d (S ''bodyHTML'') = Some v" "field d (S ''bodyHTML'') = v"
      using truthy_field_present by blast
    with True a PDict have r: "reply' = PDict (AList.update (S ''bodyHTML'') (Markup str_of v) d)"
      by (auto simp: wrap_reply_def field_def)
    from v have "S ''bodyHTML'' \<in> fst ` set d" by (simp add: present_key)
    with r PDict True v show ?thesis
      by (simp add: update_keys delete_update_same update_conv')
  next
    case False
    with a PDict have "reply' = reply"
      by (auto simp: wrap_reply_def field_def)
    with PDict False show ?thesis by simp
  qed
qed (simp_all add: wrap_reply_def)

lemma for_in_strings_fail:
  assumes "\<And>s. \<exists>e. f (PStr s) = Inl e"
      and "truthy obj" and "for_in f obj = Inr obj'"
  shows "\<exists>xs ys. obj = PList xs \<and> obj' = PList ys \<and> for_each f xs = Inr ys"
proof (cases obj)
  case (PList xs)
  with assms(3) show ?thesis
    by (auto simp: for_in_def split: sum.splits)
next
  case (PDict d)
  with assms(2) obtain kv d' where "d = kv # d'" by (cases d) auto
  moreover obtain e where "f (PStr (fst kv)) = Inl e" using assms(1) by blast
  ultimately show ?thesis using assms(3) PDict by (simp add: for_in_def)
next
  case (PStr s)
  with assms(2) obtain c s' where "s = c # s'" by (cases s) auto
  moreover obtain e where "f (PStr [c]) = Inl e" using assms(1) by blast
  ultimately show ?thesis using assms(3) PStr by (simp add: for_in_def)
next
  case (PMarkup s)
  with assms(2) obtain c s' where "s = c # s'" by (cases s) auto
  moreover obtain e where "f (PStr [c]) = Inl e" using assms(1) by blast
  ultimately show ?thesis using assms(3) PMarkup by (simp add: for_in_def)
qed (use assms(3) in \<open>simp_all add: for_in_def\<close>)

lemma wrap_reply_str: "\<exists>e. wrap_reply str_of (PStr s) = Inl e"
  by (simp add: wrap_reply_def)

lemma wrap_comment_str: "\<exists>e. wrap_comment str_of (PStr s) = Inl e"
  by (simp add: wrap_comment_def)

lemma wrap_replies_wrapped:
  assumes "truthy replies" and "for_in (wrap_reply str_of) replies = Inr replies'"
  shows "\<exists>rs rs'. replies = PList rs \<and> replies' = PList rs' \<and>
           list_all2 (reply_wrapped str_of) rs rs'"
proof -
  from for_in_strings_fail [of "wrap_reply str_of", OF wrap_reply_str assms]
  obtain rs rs' where r: "replies = PList rs" "replies' = PList rs'"
    "for_each (wrap_reply str_of) rs = Inr rs'" by blast
  from r(3) have "list_all2 (reply_wrapped str_of) rs rs'"
    by (rule for_each_list_all2 [rotated]) (rule wrap_reply_wrapped)
  with r show ?thesis by blast
qed

lemma keys_differ:
  "S ''bodyHTML_safe'' \<noteq> S ''replies''" "S ''replies'' \<noteq> S ''bodyHTML_safe''"
  "S ''bodyHTML_safe'' \<noteq> S ''bodyHTML''" "S ''replies'' \<noteq> S ''bodyHTML''"
  by (simp_all add: S_inj)

lemma wrap_comment_wrapped:
  "wrap_comment str_of comment = Inr comment' \<Longrightarrow> comment_wrapped str_of comment comment'"
proof (cases comment)
  case (PDict d)
  assume a: "wrap_comment str_of comment = Inr comment'"
  let ?m = "if truthy (field d (S ''bodyHTML'')) then Markup str_of (field d (S ''bodyHTML''))
            else Markup str_of (PStr [])"
  let ?d1 = "AList.update (S ''bodyHTML_safe'') ?m d"
  have f1: "field ?d1 (S ''replies'') = field d (S ''replies'')"
    by (simp add: field_def update_conv' keys_differ)
  show ?thesis
  proof (cases "truthy (field d (S ''replies''))")
    case True
    with a PDict f1 obtain replies' where
      w: "for_in (wrap_reply str_of) (field d (S ''replies'')) = Inr replies'" and
      c: "comment' = PDict (AList.update (S ''replies'') replies' ?d1)"
      by (auto simp: wrap_comment_def field_def split: sum.splits if_splits)
    from wrap_replies_wrapped [OF True w] obtain rs rs' where
      r: "field d (S ''replies'') = PList rs" "replies' = PList rs'"
         "list_all2 (reply_wrapped str_of) rs rs'" by blast
    have "AList.delete (S ''bodyHTML_safe'')
            (AList.delete (S ''replies'') (AList.update (S ''replies'') replies' ?d1)) =
          AList.delete (S ''bodyHTML_safe'') (AList.delete (S ''replies'') d)"
      by (simp only: delete_update_same delete_twist [of "S ''bodyHTML_safe''" "S ''replies''"])
    with c PDict True r show ?thesis
      by (simp add: update_conv' keys_differ)
  next
    case False
    with a PDict f1 have c: "comment' = PDict ?d1"
      by (auto simp: wrap_comment_def field_def split: sum.splits if_splits)
    have "AList.delete (S ''bodyHTML_safe'') (AList.delete (S ''replies'') ?d1) =
          AList.delete (S ''bodyHTML_safe'') (AList.delete (S ''replies'') d)"
      by (simp only: delete_update_same delete_twist [of "S ''bodyHTML_safe''" "S ''replies''"])
    with c PDict False show ?thesis
      by (simp add: update_conv' keys_differ)
  qed
qed (simp_all add: wrap_comment_def)

lemma wrap_comments_wrapped:
  assumes "truthy comments" and "for_in (wrap_comment str_of) comments = Inr comments'"
  shows "\<exists>cs cs'. comments = PList cs \<and> comments' = PList cs' \<and>
           list_all2 (comment_wrapped str_of) cs cs'"
proof -
  from for_in_strings_fail [of "wrap_comment str_of", OF wrap_comment_str assms]
  obtain cs cs' where r: "comments = PList cs" "comments' = PList cs'"
    "for_each (wrap_comment str_of) cs = Inr cs'" by blast
  from r(3) have "list_all2 (comment_wrapped str_of) cs cs'"
    by (rule for_each_list_all2 [rotated]) (rule wrap_comment_wrapped)
  with r show ?thesis by blast
qed

lemma wrap_bodies_wrapped:
  assumes "truthy pr_data" and "wrap_bodies str_of pr_data = Inr pr"
  shows "pr_wrapped str_of pr_data pr"
proof (cases pr_data)
  case (PDict d)
  let ?comments = "case map_of d (S ''comments'') of Some v \<Rightarrow> v | None \<Rightarrow> PList []"
  have t: "truthy ?comments \<longleftrightarrow> truthy (field d (S ''comments''))"
    by (simp add: field_def split: option.splits)
  show ?thesis
  proof (cases "truthy (field d (S ''comments''))")
    case True
    then obtain v where v: "map_of d (S ''comments'') = Some v" "field d (S ''comments'') = v"
      using truthy_field_present by blast
    with True assms(2) PDict obtain comments' where
      w: "for_in (wrap_comment str_of) v = Inr comments'" and
      p: "pr = PDict (AList.update (S ''comments'') comments' d)"
      by (auto simp: wrap_bodies_def split: sum.splits if_splits)
    from True v have "truthy v" by simp
    from wrap_comments_wrapped [OF this w] obtain cs cs' where
      r: "v = PList cs" "comments' = PList cs'" "list_all2 (comment_wrapped str_of) cs cs'"
      by blast
    from v have "S ''comments'' \<in> fst ` set d" by (simp add: present_key)
    with p PDict True v r show ?thesis
      by (simp add: update_keys delete_update_same update_conv')
  next
    case False
    with assms(2) PDict t have "pr = pr_data"
      by (auto simp: wrap_bodies_def)
    with PDict False show ?thesis by simp
  qed
qed (use assms(2) in \<open>simp_all add: wrap_bodies_def\<close>)

lemma wrap_reply_dict: "\<exists>reply'. wrap_reply str_of (PDict d) = Inr reply'"
  by (simp add: wrap_reply_def)

lemma for_each_succeeds:
  "(\<And>x. x \<in> set xs \<Longrightarrow> \<exists>y. f x = Inr y) \<Longrightarrow> \<exists>ys. for_each f xs = Inr ys"
proof (induction xs)
  case Nil
  then show ?case by simp
next
  case (Cons x xs)
  then obtain y where y: "f x = Inr y" by force
  from Cons obtain ys where "for_each f xs = Inr ys" by force
  with y show ?case by simp
qed

lemma is_dict_wraps: "is_dict reply \<Longrightarrow> \<exists>reply'. wrap_reply str_of reply = Inr reply'"
  by (cases reply) (simp_all add: wrap_reply_dict)

lemma comment_shaped_wraps:
  assumes "comment_shaped comment"
  shows "\<exists>comment'. wrap_comment str_of comment = Inr comment'"
proof (cases comment)
  case (PDict d)
  let ?m = "if truthy (field d (S ''bodyHTML'')) then Markup str_of (field d (S ''bodyHTML''))
            else Markup str_of (PStr [])"
  let ?d1 = "AList.update (S ''bodyHTML_safe'') ?m d"
  have f1: "field ?d1 (S ''replies'') = field d (S ''replies'')"
    by (simp add: field_def update_conv' keys_differ)
  show ?thesis
  proof (cases "truthy (field d (S ''replies''))")
    case True
    with assms PDict obtain rs where rs: "field d (S ''replies'') = PList rs" "list_all is_dict rs"
      by (auto split: pyval.splits)
    then have "\<And>x. x \<in> set rs \<Longrightarrow> \<exists>y. wrap_reply str_of x = Inr y"
      by (simp add: list_all_iff is_dict_wraps)
    then obtain rs' where "for_each (wrap_reply str_of) rs = Inr rs'"
      using for_each_succeeds by blast
    with PDict True rs f1 show ?thesis
      by (auto simp: wrap_comment_def field_def for_in_def split: option.splits)
  next
    case False
    with PDict f1 show ?thesis
      by (auto simp: wrap_comment_def field_def split: option.splits)
  qed
qed (use assms in simp_all)

lemma pr_shaped_wraps:
  assumes "pr_shaped pr_data"
  shows "\<exists>pr. wrap_bodies str_of pr_data = Inr pr"
proof (cases pr_data)
  case (PDict d)
  have t: "truthy (case map_of d (S ''comments'') of Some v \<Rightarrow> v | None \<Rightarrow> PList []) \<longleftrightarrow>
           truthy (field d (S ''comments''))"
    by (simp add: field_def split: option.splits)
  show ?thesis
  proof (cases "truthy (field d (S ''comments''))")
    case True
    with assms PDict obtain cs where
      cs: "field d (S ''comments'') = PList cs" "list_all comment_shaped cs"
      by (auto split: pyval.splits)
    then have "\<And>x. x \<in> set cs \<Longrightarrow> \<exists>y. wrap_comment str_of x = Inr y"
      by (simp add: list_all_iff comment_shaped_wraps)
    then obtain cs' where "for_each (wrap_comment str_of) cs = Inr cs'"
      using for_each_succeeds by blast
    with PDict True cs show ?thesis
      by (auto simp: wrap_bodies_def field_def for_in_def split: option.splits)
  next
    case False
    with PDict t show ?thesis
      by (simp add: wrap_bodies_def)
  qed
qed (use assms in simp_all)

lemma review_run:
  "pr_detail review_env 7 empty_request (0, []) =
     (Inr review_page,
      (2, [(GetRepoInfo, Inr demo_repo),
           (GetCommentsForPr (PStr (S ''octocat'')) (PStr (S ''hello'')) 7 False,
            Inr review_pr_data)]))"
  by (simp add: pr_detail_def pr_detail_try_def io_defs Let_def review_env_def demo_api_def
      demo_repo_def empty_request_def flag_def lower_def review_pr_data_def review_page_def
      review_pr_def
      wrap_bodies_def wrap_comment_def wrap_reply_def for_in_def S_inj S_def)

text \<open>
  C5, as stated, fails on a reply whose \<^verbatim>\<open>bodyHTML\<close> is present and empty: the handler
  tests \<^verbatim>\<open>if body:\<close>, so the field stays the plain empty string and is not markup.
\<close>

theorem reply_body_not_wrapped_counterexample:
  "fst (run_view review_env PrDetail 7 empty_request (0, [])) = Inr review_page \<and>
   map_of [(S ''bodyHTML'', PStr [])] (S ''bodyHTML'') = Some (PStr []) \<and>
   PStr [] \<noteq> Markup (py_str review_env) (PStr [])"
  by (simp add: review_run)

text \<open>
  C5, amended. When the PR is found (the client returns truthy data) and the data have
  the shape of PR data (a dict whose comments, when there are any, are a list of dicts,
  the replies of each, when there are any, a list of dicts), the handler answers with
  status 200 and the rendered detail page, which gets the repository's owner and name, the
  two flags of the request, the configuration, and PR data that differ from the fetched
  data in this only: each comment has a \<^verbatim>\<open>bodyHTML_safe\<close> field, its \<^verbatim>\<open>bodyHTML\<close> wrapped
  as markup, or empty markup when \<^verbatim>\<open>bodyHTML\<close> is absent or falsy; each reply's
  \<^verbatim>\<open>bodyHTML\<close> is wrapped as markup when it is truthy and left as it is otherwise. Every
  other field of the PR data, of the comments and of the replies is unchanged.
\<close>

theorem pr_detail_frame:
  assumes "get_repo_info (github_api app) w = (Inr repo, w1)"
      and "getitem repo (S ''owner'') = Inr owner"
      and "getitem repo (S ''name'') = Inr name"
      and "get_comments_for_pr (github_api app) owner name pr_number
             (flag req (S ''include_resolved'')) w1 = (Inr pr_data, w2)"
      and "truthy pr_data"
      and "pr_shaped pr_data"
  shows "\<exists>pr. pr_wrapped (py_str app) pr_data pr \<and>
           fst (pr_detail app pr_number req (w, tr)) =
             Inr \<lparr>content = render_template (S ''pr_detail.html'')
                      [(S ''pr'', Val pr), (S ''owner'', Val owner), (S ''name'', Val name),
                       (S ''include_resolved'', Val (PBool (flag req (S ''include_resolved'')))),
                       (S ''compact_mode'', Val (PBool (flag req (S ''compact_mode'')))),
                       (S ''config'', Cfg (config app))],
                   status = 200\<rparr>"
proof -
  from assms(6) obtain pr where pr: "wrap_bodies (py_str app) pr_data = Inr pr"
    using pr_shaped_wraps by blast
  with assms(5) have "pr_wrapped (py_str app) pr_data pr"
    by (rule wrap_bodies_wrapped)
  moreover from assms pr have "fst (pr_detail app pr_number req (w, tr)) =
             Inr \<lparr>content = render_template (S ''pr_detail.html'')
                      [(S ''pr'', Val pr), (S ''owner'', Val owner), (S ''name'', Val name),
                       (S ''include_resolved'', Val (PBool (flag req (S ''include_resolved'')))),
                       (S ''compact_mode'', Val (PBool (flag req (S ''compact_mode'')))),
                       (S ''config'', Cfg (config app))],
                   status = 200\<rparr>"
    by (simp add: pr_detail_def pr_detail_try_def io_defs Let_def)
  ultimately show ?thesis by blast
qed

theorem pr_detail_frame_witness:
  "pr_wrapped (py_str review_env) review_pr_data review_pr \<and>
   fst (pr_detail review_env 7 empty_request (0, [])) = Inr review_page"
proof -
  have 1: "get_repo_info (github_api review_env) 0 = (Inr demo_repo, 1)"
    by (simp add: review_env_def demo_api_def)
  have 2: "getitem demo_repo (S ''owner'') = Inr (PStr (S ''octocat''))"
    by (simp add: demo_repo_def)
  have 3: "getitem demo_repo (S ''name'') = Inr (PStr (S ''hello''))"
    by (simp add: demo_repo_def S_inj)
  have 4: "get_comments_for_pr (github_api review_env) (PStr (S ''octocat''))
             (PStr (S ''hello'')) 7 (flag empty_request (S ''include_resolved'')) 1 =
           (Inr review_pr_data, 2)"
    by (simp add: review_env_def demo_api_def)
  have 5: "truthy review_pr_data"
    by (simp add: review_pr_data_def)
  have 6: "pr_shaped review_pr_data"
    by (simp add: review_pr_data_def field_def S_inj)
  from pr_detail_frame [OF 1 2 3 4 5 6, where tr = "[]"]
  obtain pr where w: "pr_wrapped (py_str review_env) review_pr_data pr" and
    p: "fst (pr_detail review_env 7 empty_request (0, [])) =
          Inr \<lparr>content = render_template (S ''pr_detail.html'')
                   [(S ''pr'', Val pr), (S ''owner'', Val (PStr (S ''octocat''))),
                    (S ''name'', Val (PStr (S ''hello''))),
                    (S ''include_resolved'',
                     Val (PBool (flag empty_request (S ''include_resolved'')))),
                    (S ''compact_mode'', Val (PBool (flag empty_request (S ''compact_mode'')))),
                    (S ''config'', Cfg (config review_env))],
                status = 200\<rparr>"
    by blast
  have r: "fst (pr_detail review_env 7 empty_request (0, [])) = Inr review_page"
    by (simp add: review_run)
  from p r have "pr = review_pr"
    by (simp add: review_page_def render_template_def)
  with w r show ?thesis by simp
qed

end
